theory Spec2Isabelle
  imports Complex_Main
begin

section \<open>Python numbers and rounding\<close>

text \<open>
  The weekly pipeline of theta_guard computes with Python floats. They are modelled as
  mathematical reals: sums, differences, products and quotients are exact. The built-in
  \<^verbatim>\<open>round(x, ndigits)\<close> rounds to the nearest multiple of \<open>10 ^ -ndigits\<close>, a tie
  going to the even neighbour.
\<close>

definition py_round :: "real \<Rightarrow> nat \<Rightarrow> real" where
  "py_round x ndigits =
     (let s = 10 ^ ndigits;
          y = x * s;
          f = \<lfloor>y\<rfloor>;
          d = y - of_int f
      in of_int (if d < 1 / 2 then f
                 else if 1 / 2 < d then f + 1
                 else if even f then f else f + 1) / s)"

section \<open>Python values and formatting\<close>

text \<open>
  The entry evaluator accepts arguments of any shape, so its inputs are Python values:
  \<^verbatim>\<open>None\<close>, booleans, numbers, strings, lists and dictionaries with string keys (an
  association list; the first binding of a key is the one \<^verbatim>\<open>get\<close> returns).
\<close>

datatype pyval =
    PyNone
  | PyBool bool
  | PyInt int
  | PyFloat real
  | PyStr string
  | PyList "pyval list"
  | PyDict "(string \<times> pyval) list"

text \<open>Truth value testing, as \<^verbatim>\<open>not v\<close> and \<^verbatim>\<open>if v\<close> apply it.\<close>

fun truthy :: "pyval \<Rightarrow> bool" where
  "truthy PyNone = False"
| "truthy (PyBool b) = b"
| "truthy (PyInt i) = (i \<noteq> 0)"
| "truthy (PyFloat r) = (r \<noteq> 0)"
| "truthy (PyStr s) = (s \<noteq> [])"
| "truthy (PyList l) = (l \<noteq> [])"
| "truthy (PyDict d) = (d \<noteq> [])"

definition dict_get :: "(string \<times> pyval) list \<Rightarrow> string \<Rightarrow> pyval \<Rightarrow> pyval" where
  "dict_get d k dflt = (case map_of d k of None \<Rightarrow> dflt | Some v \<Rightarrow> v)"

text \<open>
  The reason strings are built with f-strings. The text Python prints for a number, a
  number with a fixed count of decimals, a boolean, a date or an arbitrary value is given
  by the functions of a \<open>py_format\<close> record, which every operation that builds such a
  string takes as its first argument; the literal parts of each message are the source's.
\<close>

record py_format =
  str_int :: "int \<Rightarrow> string"
  str_num :: "real \<Rightarrow> string"
  fmt_2f :: "real \<Rightarrow> string"
  fmt_4f :: "real \<Rightarrow> string"
  str_bool :: "bool \<Rightarrow> string"
  str_date :: "int \<Rightarrow> string"
  str_val :: "pyval \<Rightarrow> string"

text \<open>Exceptions that the modelled code can raise.\<close>

datatype py_error = KeyError | ValueError | IndexError | OverflowError | AttributeError

section \<open>Backtest evaluator (backtest/evaluator.py)\<close>

text \<open>
  A weekly record is the dictionary the docstring of \<^verbatim>\<open>evaluate_backtest\<close> describes:
  every key is present, \<^verbatim>\<open>net_premium\<close> and \<^verbatim>\<open>max_loss\<close> are a float or \<^verbatim>\<open>None\<close>,
  \<^verbatim>\<open>decision\<close> and \<^verbatim>\<open>outcome\<close> are arbitrary strings.
\<close>

record weekly_record =
  w_week :: string
  w_decision :: string
  w_net_premium :: "real option"
  w_max_loss :: "real option"
  w_outcome :: string
  w_pnl :: real

record backtest_metrics =
  total_trades :: nat
  wins :: nat
  losses :: nat
  win_rate :: real
  average_win :: real
  average_loss :: real
  expectancy :: real
  cumulative_pnl :: real
  max_drawdown :: real
  return_on_risk :: real

definition DECISION_TRADE_ALLOWED :: string where
  "DECISION_TRADE_ALLOWED = ''TRADE ALLOWED''"

definition DECISION_NO_TRADE :: string where
  "DECISION_NO_TRADE = ''NO TRADE''"

definition OUTCOME_WIN :: string where
  "OUTCOME_WIN = ''WIN''"

definition OUTCOME_LOSS :: string where
  "OUTCOME_LOSS = ''LOSS''"

definition OUTCOME_SKIPPED :: string where
  "OUTCOME_SKIPPED = ''SKIPPED''"

definition empty_result :: backtest_metrics where
  "empty_result =
     \<lparr>total_trades = 0, wins = 0, losses = 0, win_rate = 0, average_win = 0,
      average_loss = 0, expectancy = 0, cumulative_pnl = 0, max_drawdown = 0,
      return_on_risk = 0\<rparr>"

definition filter_traded_weeks :: "weekly_record list \<Rightarrow> weekly_record list" where
  "filter_traded_weeks weekly_results =
     filter (\<lambda>w. w_decision w = DECISION_TRADE_ALLOWED \<and> w_outcome w \<noteq> OUTCOME_SKIPPED)
       weekly_results"

text \<open>
  The loop of \<^verbatim>\<open>_compute_max_drawdown\<close>: the state is
  \<open>(cumulative, peak, max_dd)\<close>, updated once per P&L in order.
\<close>

fun drawdown_loop :: "real \<Rightarrow> real \<Rightarrow> real \<Rightarrow> real list \<Rightarrow> real" where
  "drawdown_loop cumulative peak max_dd [] = max_dd"
| "drawdown_loop cumulative peak max_dd (pnl # pnls) =
     (let cumulative' = cumulative + pnl;
          peak' = (if cumulative' > peak then cumulative' else peak);
          drawdown = peak' - cumulative';
          max_dd' = (if drawdown > max_dd then drawdown else max_dd)
      in drawdown_loop cumulative' peak' max_dd' pnls)"

definition compute_max_drawdown :: "real list \<Rightarrow> real" where
  "compute_max_drawdown pnls = (if pnls = [] then 0 else drawdown_loop 0 0 0 pnls)"

definition evaluate_backtest :: "weekly_record list \<Rightarrow> backtest_metrics" where
  "evaluate_backtest weekly_results =
     (if length weekly_results = 0 then empty_result
      else
        let traded_weeks = filter_traded_weeks weekly_results in
        if traded_weeks = [] then empty_result
        else
          let wins_l = filter (\<lambda>w. w_outcome w = OUTCOME_WIN) traded_weeks;
              losses_l = filter (\<lambda>w. w_outcome w = OUTCOME_LOSS) traded_weeks;
              total = length traded_weeks;
              win_count = length wins_l;
              loss_count = length losses_l;
              win_pnls = map w_pnl wins_l;
              loss_pnls = map w_pnl losses_l;
              all_pnls = map w_pnl traded_weeks;
              max_losses = map the (filter (\<lambda>m. m \<noteq> None) (map w_max_loss traded_weeks));
              win_rate_v = (if total > 0 then real win_count / real total else 0);
              average_win_v =
                (if win_pnls \<noteq> [] then sum_list win_pnls / real (length win_pnls) else 0);
              average_loss_v =
                (if loss_pnls \<noteq> [] then sum_list loss_pnls / real (length loss_pnls) else 0);
              expectancy_v =
                (if all_pnls \<noteq> [] then sum_list all_pnls / real (length all_pnls) else 0);
              cumulative_pnl_v = sum_list all_pnls;
              max_drawdown_v = compute_max_drawdown all_pnls;
              avg_max_loss =
                (if max_losses \<noteq> [] then sum_list max_losses / real (length max_losses)
                 else 0);
              return_on_risk_v = (if avg_max_loss > 0 then expectancy_v / avg_max_loss else 0)
          in \<lparr>total_trades = total, wins = win_count, losses = loss_count,
              win_rate = py_round win_rate_v 4,
              average_win = py_round average_win_v 4,
              average_loss = py_round average_loss_v 4,
              expectancy = py_round expectancy_v 4,
              cumulative_pnl = py_round cumulative_pnl_v 4,
              max_drawdown = py_round max_drawdown_v 4,
              return_on_risk = py_round return_on_risk_v 4\<rparr>)"

text \<open>
  The reading of Step 4 in the specification, for comparison with the code: the average
  maximum loss is taken over the traded weeks whose \<^verbatim>\<open>max_loss\<close> is known and positive.
\<close>

definition spec_positive_max_losses :: "weekly_record list \<Rightarrow> real list" where
  "spec_positive_max_losses weekly_results =
     map the (filter (\<lambda>m. case m of None \<Rightarrow> False | Some v \<Rightarrow> 0 < v)
       (map w_max_loss (filter_traded_weeks weekly_results)))"

definition spec_return_on_risk :: "weekly_record list \<Rightarrow> real" where
  "spec_return_on_risk weekly_results =
     (let traded = filter_traded_weeks weekly_results;
          exp_v = sum_list (map w_pnl traded) / real (length traded);
          pos = spec_positive_max_losses weekly_results
      in if pos = [] then 0 else exp_v / (sum_list pos / real (length pos)))"

text \<open>The known maximum losses of the traded weeks, as the code collects them.\<close>

definition known_max_losses :: "weekly_record list \<Rightarrow> real list" where
  "known_max_losses weekly_results =
     map the (filter (\<lambda>m. m \<noteq> None) (map w_max_loss (filter_traded_weeks weekly_results)))"

definition traded_pnls :: "weekly_record list \<Rightarrow> real list" where
  "traded_pnls weekly_results = map w_pnl (filter_traded_weeks weekly_results)"

section \<open>EMA engine (indicators/ema_engine.py)\<close>


text \<open>
  The second loop of \<^verbatim>\<open>compute_ema_series\<close> runs over the prices from index
  \<open>period\<close> on, carrying \<open>ema_previous\<close>; it returns the values it appends.
\<close>

fun ema_loop :: "real \<Rightarrow> real \<Rightarrow> real list \<Rightarrow> real list" where
  "ema_loop multiplier ema_previous [] = []"
| "ema_loop multiplier ema_previous (price # rest) =
     (let ema_current = (price - ema_previous) * multiplier + ema_previous
      in ema_current # ema_loop multiplier ema_current rest)"

definition compute_ema_series :: "real list \<Rightarrow> int \<Rightarrow> real list option" where
  "compute_ema_series prices period =
     (if period < 1 then None
      else if int (length prices) < period + 2 then None
      else
        let multiplier = 2 / (real_of_int period + 1);
            sma_seed = sum_list (take (nat period) prices) / real_of_int period
        in Some (replicate (nat period) sma_seed
                 @ ema_loop multiplier sma_seed (drop (nat period) prices)))"




section \<open>Entry evaluator (signals/entry_evaluator.py)\<close>

record entry_decision =
  decision :: string
  hard_blocks_triggered :: "string list"
  signal_failures :: "string list"
  reasons :: "string list"

text \<open>
  \<^verbatim>\<open>_evaluate_hard_blocks\<close> appends to two lists in three independent checks; each check
  is given here by the pair of lists it contributes.
\<close>

definition holiday_check :: "py_format \<Rightarrow> pyval \<Rightarrow> string list \<times> string list" where
  "holiday_check F holiday_result =
     (case holiday_result of
        PyDict d \<Rightarrow>
          if \<not> truthy (dict_get d ''is_trade_week'' (PyBool False)) then
            ([''holiday_block''],
             [''HARD BLOCK: '' @ str_val F (dict_get d ''reason'' (PyStr ''Holiday check failed.''))])
          else ([], [])
      | _ \<Rightarrow> ([''holiday_data_invalid''],
              [''HARD BLOCK: Holiday result is missing or malformed.'']))"

definition entry_context_check :: "pyval \<Rightarrow> string list \<times> string list" where
  "entry_context_check entry_context =
     (case entry_context of
        PyDict d \<Rightarrow>
          if \<not> truthy (dict_get d ''entry_time_valid'' (PyBool False)) then
            ([''entry_time_invalid''],
             [''HARD BLOCK: Entry time is outside the valid window.''])
          else ([], [])
      | _ \<Rightarrow> ([''entry_context_invalid''],
              [''HARD BLOCK: Entry context is missing or malformed.'']))"

definition ema_check :: "py_format \<Rightarrow> pyval \<Rightarrow> string list \<times> string list" where
  "ema_check F ema_st =
     (case ema_st of
        PyDict d \<Rightarrow>
          if \<not> truthy (dict_get d ''valid'' (PyBool False)) then
            ([''ema_invalid''],
             [''HARD BLOCK: '' @ str_val F (dict_get d ''reason'' (PyStr ''EMA data is invalid.''))])
          else ([], [])
      | _ \<Rightarrow> ([''ema_data_invalid''],
              [''HARD BLOCK: EMA state is missing or malformed.'']))"

definition evaluate_hard_blocks ::
  "py_format \<Rightarrow> pyval \<Rightarrow> pyval \<Rightarrow> pyval \<Rightarrow> string list \<times> string list" where
  "evaluate_hard_blocks F holiday_result ema_st entry_context =
     (let (t1, r1) = holiday_check F holiday_result;
          (t2, r2) = entry_context_check entry_context;
          (t3, r3) = ema_check F ema_st
      in (t1 @ t2 @ t3, r1 @ r2 @ r3))"

text \<open>
  \<^verbatim>\<open>_evaluate_signal_conditions\<close> calls \<^verbatim>\<open>ema_state.get\<close>, which raises AttributeError
  on a value without that method; of the values modelled only a dictionary has it.
\<close>

definition evaluate_signal_conditions :: "pyval \<Rightarrow> py_error + string list \<times> string list" where
  "evaluate_signal_conditions ema_st =
     (case ema_st of
        PyDict d \<Rightarrow>
          let (f1, r1) =
                (if \<not> truthy (dict_get d ''short_above_long'' (PyBool False)) then
                   ([''short_ema_not_above_long''],
                    [''SIGNAL FAIL: 3-period EMA is not above 8-period EMA.''])
                 else ([], []));
              (f2, r2) =
                (if dict_get d ''long_ema_slope'' (PyStr ''negative'') = PyStr ''negative'' then
                   ([''long_ema_slope_negative''],
                    [''SIGNAL FAIL: 8-period EMA slope is negative.''])
                 else ([], []))
          in Inr (f1 @ f2, r1 @ r2)
      | _ \<Rightarrow> Inl AttributeError)"

text \<open>
  In the handler of \<^verbatim>\<open>evaluate_entry\<close> the list under \<^verbatim>\<open>hard_blocks_triggered\<close> is the
  one the hard-block pass returned, and the result's reasons are those collected so far.
\<close>

definition evaluate_entry :: "py_format \<Rightarrow> pyval \<Rightarrow> pyval \<Rightarrow> pyval \<Rightarrow> entry_decision" where
  "evaluate_entry F holiday_result ema_st entry_context =
     (let (triggered, hb_reasons) = evaluate_hard_blocks F holiday_result ema_st entry_context;
          result = \<lparr>decision = DECISION_NO_TRADE, hard_blocks_triggered = triggered,
                     signal_failures = [], reasons = hb_reasons\<rparr>
      in if triggered \<noteq> [] then result\<lparr>decision := DECISION_NO_TRADE\<rparr>
         else
           case evaluate_signal_conditions ema_st of
             Inl e \<Rightarrow>
               result\<lparr>decision := DECISION_NO_TRADE,
                      hard_blocks_triggered := triggered @ [''evaluation_error''],
                      reasons := hb_reasons
                        @ [''Unexpected error during evaluation. Defaulting to NO TRADE.'']\<rparr>
           | Inr (failed, sf_reasons) \<Rightarrow>
               let result = result\<lparr>signal_failures := failed,
                                    reasons := hb_reasons @ sf_reasons\<rparr>
               in if failed \<noteq> [] then result\<lparr>decision := DECISION_NO_TRADE\<rparr>
                  else result\<lparr>decision := DECISION_TRADE_ALLOWED,
                              reasons := hb_reasons @ sf_reasons
                                @ [''All hard blocks cleared and signal conditions met.'']\<rparr>)"

section \<open>BWB builder (strategies/bwb_builder.py)\<close>

text \<open>
  An option record is a dictionary; each field is \<open>None\<close> where the key is missing
  (for \<^verbatim>\<open>delta\<close>: missing or \<^verbatim>\<open>None\<close>) and holds a value of the documented type otherwise.
\<close>

record option_rec =
  opt_type :: "string option"
  opt_strike :: "real option"
  opt_delta :: "real option"
  opt_bid :: "real option"
  opt_ask :: "real option"

record leg =
  action :: string
  quantity :: nat
  leg_type :: string
  leg_strike :: real
  price :: real
  leg_delta :: "real option"

record bwb_structure =
  structure_type :: string
  legs :: "leg list"
  net_premium :: real
  max_loss :: "real option"
  valid :: bool
  reason :: string

definition STRUCTURE_PUT_CREDIT_BWB :: string where
  "STRUCTURE_PUT_CREDIT_BWB = ''PUT_CREDIT_BWB''"

definition STRUCTURE_CALL_DEBIT_BWB :: string where
  "STRUCTURE_CALL_DEBIT_BWB = ''CALL_DEBIT_BWB''"

definition TARGET_DELTA_PUT_SHORT :: real where
  "TARGET_DELTA_PUT_SHORT = 55 / 100"

definition TARGET_DELTA_CALL_SHORT :: real where
  "TARGET_DELTA_CALL_SHORT = 45 / 100"

definition filter_options :: "option_rec list \<Rightarrow> string \<Rightarrow> option_rec list" where
  "filter_options option_chain option_type =
     filter (\<lambda>opt. opt_type opt = Some option_type) option_chain"

text \<open>
  The loop of \<^verbatim>\<open>_find_closest_delta\<close> carries \<open>closest\<close> and \<open>min_distance\<close>;
  \<open>None\<close> as the distance stands for \<^verbatim>\<open>float("inf")\<close>, below which every distance lies.
\<close>

fun closest_loop ::
  "real \<Rightarrow> option_rec option \<Rightarrow> real option \<Rightarrow> option_rec list \<Rightarrow> option_rec option" where
  "closest_loop target_delta closest min_distance [] = closest"
| "closest_loop target_delta closest min_distance (opt # rest) =
     (case opt_delta opt of
        None \<Rightarrow> closest_loop target_delta closest min_distance rest
      | Some delta \<Rightarrow>
          let distance = \<bar>\<bar>delta\<bar> - target_delta\<bar> in
          if (case min_distance of None \<Rightarrow> True | Some m \<Rightarrow> distance < m)
          then closest_loop target_delta (Some opt) (Some distance) rest
          else closest_loop target_delta closest min_distance rest)"

definition find_closest_delta :: "option_rec list \<Rightarrow> real \<Rightarrow> option_rec option" where
  "find_closest_delta options target_delta =
     (if options = [] then None else closest_loop target_delta None None options)"

definition find_option_by_strike :: "option_rec list \<Rightarrow> real \<Rightarrow> option_rec option" where
  "find_option_by_strike options strike_v = find (\<lambda>opt. opt_strike opt = Some strike_v) options"

definition mid_price :: "option_rec \<Rightarrow> real" where
  "mid_price opt =
     (let bid = (case opt_bid opt of None \<Rightarrow> 0 | Some b \<Rightarrow> b);
          ask = (case opt_ask opt of None \<Rightarrow> 0 | Some a \<Rightarrow> a)
      in (bid + ask) / 2)"

definition make_leg ::
  "string \<Rightarrow> nat \<Rightarrow> string \<Rightarrow> real \<Rightarrow> real \<Rightarrow> real option \<Rightarrow> leg" where
  "make_leg act qty option_type strike_v price_v delta =
     \<lparr>action = act, quantity = qty, leg_type = option_type, leg_strike = strike_v,
      price = py_round price_v 4,
      leg_delta = (case delta of None \<Rightarrow> None | Some d \<Rightarrow> Some (py_round d 4))\<rparr>"

text \<open>
  \<^verbatim>\<open>sorted(opts, key=lambda x: x["strike"])\<close> is a stable sort and raises KeyError when a
  record has no strike; \<^verbatim>\<open>strikes.index(v)\<close> is the first position of \<open>v\<close> and raises
  ValueError when there is none.
\<close>

definition strike_of :: "option_rec \<Rightarrow> real" where
  "strike_of opt = (case opt_strike opt of None \<Rightarrow> 0 | Some s \<Rightarrow> s)"

definition sorted_by_strike :: "option_rec list \<Rightarrow> py_error + option_rec list" where
  "sorted_by_strike opts =
     (if list_ex (\<lambda>opt. opt_strike opt = None) opts then Inl KeyError
      else Inr (sort_key strike_of opts))"

fun list_index :: "'a list \<Rightarrow> 'a \<Rightarrow> nat option" where
  "list_index [] v = None"
| "list_index (x # xs) v =
     (if x = v then Some 0 else map_option Suc (list_index xs v))"

definition build_put_credit_bwb ::
  "py_format \<Rightarrow> option_rec list \<Rightarrow> bwb_structure \<Rightarrow> py_error + bwb_structure" where
  "build_put_credit_bwb F option_chain result =
     (let puts = filter_options option_chain ''put'' in
      if puts = [] then Inr (result\<lparr>reason := ''No put options found in chain.''\<rparr>)
      else
        case sorted_by_strike puts of
          Inl e \<Rightarrow> Inl e
        | Inr puts_sorted \<Rightarrow>
        let strikes = map strike_of puts_sorted in
        (case find_closest_delta puts_sorted TARGET_DELTA_PUT_SHORT of
          None \<Rightarrow> Inr (result\<lparr>reason := ''Could not find put option near 55 delta.''\<rparr>)
        | Some short_put \<Rightarrow>
        let short_strike = strike_of short_put in
        (case list_index strikes short_strike of
          None \<Rightarrow> Inl ValueError
        | Some short_idx \<Rightarrow>
        if short_idx + 1 \<ge> length strikes then
          Inr (result\<lparr>reason := ''No strike available above short strike ''
                 @ str_num F short_strike @ ''.''\<rparr>)
        else
        let long_upper_strike = strikes ! (short_idx + 1) in
        if int short_idx - 2 < 0 then
          Inr (result\<lparr>reason := ''Not enough strikes below short strike ''
                 @ str_num F short_strike @ '' for wing.''\<rparr>)
        else
        let long_lower_strike = strikes ! (short_idx - 2) in
        (case find_option_by_strike puts_sorted long_upper_strike of
          None \<Rightarrow> Inr (result\<lparr>reason := ''Could not find put at strike ''
                        @ str_num F long_upper_strike @ ''.''\<rparr>)
        | Some long_upper \<Rightarrow>
        (case find_option_by_strike puts_sorted long_lower_strike of
          None \<Rightarrow> Inr (result\<lparr>reason := ''Could not find put at strike ''
                        @ str_num F long_lower_strike @ ''.''\<rparr>)
        | Some long_lower \<Rightarrow>
        let short_price = mid_price short_put;
            long_upper_price = mid_price long_upper;
            long_lower_price = mid_price long_lower;
            net_premium_v = (2 * short_price) - long_upper_price - long_lower_price;
            upper_spread_width = long_upper_strike - short_strike;
            max_loss_upper = upper_spread_width - net_premium_v;
            max_loss_v = (if max_loss_upper > 0 then py_round max_loss_upper 4 else 0)
        in Inr (result\<lparr>
             legs := [make_leg ''SELL'' 2 ''put'' short_strike short_price (opt_delta short_put),
                      make_leg ''BUY'' 1 ''put'' long_upper_strike long_upper_price
                        (opt_delta long_upper),
                      make_leg ''BUY'' 1 ''put'' long_lower_strike long_lower_price
                        (opt_delta long_lower)],
             net_premium := py_round net_premium_v 4,
             max_loss := Some max_loss_v,
             valid := True,
             reason := ''PUT credit BWB built: short '' @ str_num F short_strike
               @ '' (x2), long '' @ str_num F long_upper_strike
               @ '', wing '' @ str_num F long_lower_strike
               @ ''. Net credit: '' @ fmt_2f F net_premium_v
               @ '', Max loss: '' @ fmt_2f F max_loss_v\<rparr>))))))"

definition build_call_debit_bwb ::
  "py_format \<Rightarrow> option_rec list \<Rightarrow> bwb_structure \<Rightarrow> py_error + bwb_structure" where
  "build_call_debit_bwb F option_chain result =
     (let calls = filter_options option_chain ''call'' in
      if calls = [] then Inr (result\<lparr>reason := ''No call options found in chain.''\<rparr>)
      else
        case sorted_by_strike calls of
          Inl e \<Rightarrow> Inl e
        | Inr calls_sorted \<Rightarrow>
        let strikes = map strike_of calls_sorted in
        (case find_closest_delta calls_sorted TARGET_DELTA_CALL_SHORT of
          None \<Rightarrow> Inr (result\<lparr>reason := ''Could not find call option near 45 delta.''\<rparr>)
        | Some short_call \<Rightarrow>
        let short_strike = strike_of short_call in
        (case list_index strikes short_strike of
          None \<Rightarrow> Inl ValueError
        | Some short_idx \<Rightarrow>
        if short_idx + 2 \<ge> length strikes then
          Inr (result\<lparr>reason := ''Not enough strikes above short strike ''
                 @ str_num F short_strike @ '' for wing.''\<rparr>)
        else
        let long_upper_strike = strikes ! (short_idx + 2) in
        if int short_idx - 1 < 0 then
          Inr (result\<lparr>reason := ''No strike available below short strike ''
                 @ str_num F short_strike @ ''.''\<rparr>)
        else
        let long_lower_strike = strikes ! (short_idx - 1) in
        (case find_option_by_strike calls_sorted long_upper_strike of
          None \<Rightarrow> Inr (result\<lparr>reason := ''Could not find call at strike ''
                        @ str_num F long_upper_strike @ ''.''\<rparr>)
        | Some long_upper \<Rightarrow>
        (case find_option_by_strike calls_sorted long_lower_strike of
          None \<Rightarrow> Inr (result\<lparr>reason := ''Could not find call at strike ''
                        @ str_num F long_lower_strike @ ''.''\<rparr>)
        | Some long_lower \<Rightarrow>
        let short_price = mid_price short_call;
            long_upper_price = mid_price long_upper;
            long_lower_price = mid_price long_lower;
            net_premium_v = (2 * short_price) - long_upper_price - long_lower_price;
            lower_spread_width = short_strike - long_lower_strike;
            max_loss_lower = lower_spread_width - net_premium_v;
            max_loss_v = (if max_loss_lower > 0 then py_round max_loss_lower 4 else 0)
        in Inr (result\<lparr>
             legs := [make_leg ''SELL'' 2 ''call'' short_strike short_price
                        (opt_delta short_call),
                      make_leg ''BUY'' 1 ''call'' long_upper_strike long_upper_price
                        (opt_delta long_upper),
                      make_leg ''BUY'' 1 ''call'' long_lower_strike long_lower_price
                        (opt_delta long_lower)],
             net_premium := py_round net_premium_v 4,
             max_loss := Some max_loss_v,
             valid := True,
             reason := ''CALL debit BWB built: short '' @ str_num F short_strike
               @ '' (x2), wing '' @ str_num F long_upper_strike
               @ '', long '' @ str_num F long_lower_strike
               @ ''. Net premium: '' @ fmt_2f F net_premium_v
               @ '', Max loss: '' @ fmt_2f F max_loss_v\<rparr>))))))"

text \<open>
  The builders change \<open>result\<close> only in their last statements, none of which raises, so
  the handler of \<^verbatim>\<open>build_bwb_structure\<close> sees the initial result.
\<close>

definition build_bwb_structure :: "py_format \<Rightarrow> option_rec list \<Rightarrow> string \<Rightarrow> bwb_structure" where
  "build_bwb_structure F option_chain stype =
     (let result = \<lparr>structure_type = stype, legs = [], net_premium = 0, max_loss = None,
                     valid = False, reason = []\<rparr>
      in if length option_chain = 0 then
           result\<lparr>reason := ''Invalid or empty option chain provided.''\<rparr>
         else
           case (if stype = STRUCTURE_PUT_CREDIT_BWB then build_put_credit_bwb F option_chain result
                 else if stype = STRUCTURE_CALL_DEBIT_BWB then
                   build_call_debit_bwb F option_chain result
                 else Inr (result\<lparr>reason := ''Unknown structure type: '' @ stype\<rparr>)) of
             Inr r \<Rightarrow> r
           | Inl e \<Rightarrow> result\<lparr>reason := ''Unexpected error during structure construction.''\<rparr>)"

section \<open>Holiday gate (calendar/holiday_gate.py)\<close>

text \<open>
  A date is its proleptic Gregorian ordinal (\<^verbatim>\<open>date.toordinal()\<close>): day 1 is 0001-01-01,
  a Monday, and day 3652059 is 9999-12-31, the last date Python represents. Adding a
  \<^verbatim>\<open>timedelta\<close> that leaves this range raises OverflowError.
\<close>

definition MIN_ORDINAL :: int where
  "MIN_ORDINAL = 1"

definition MAX_ORDINAL :: int where
  "MAX_ORDINAL = 3652059"

definition weekday :: "int \<Rightarrow> int" where
  "weekday d = (d + 6) mod 7"

definition date_add_days :: "int \<Rightarrow> int \<Rightarrow> py_error + int" where
  "date_add_days d n =
     (if MIN_ORDINAL \<le> d + n \<and> d + n \<le> MAX_ORDINAL then Inr (d + n) else Inl OverflowError)"

text \<open>
  The collaborators of the gate are library calls: \<^verbatim>\<open>datetime.strptime\<close> with the format
  \<^verbatim>\<open>%Y-%m-%d\<close> (\<open>None\<close> where it raises ValueError or TypeError),
  \<^verbatim>\<open>mcal.get_calendar("NYSE")\<close> (\<open>None\<close> where it raises) and the calendar's
  \<^verbatim>\<open>schedule\<close> method, which raises, returns \<^verbatim>\<open>None\<close>, or returns a frame whose index
  holds the trading dates of the range (an empty frame has none).
\<close>

datatype schedule_result = ScheduleRaises | ScheduleNone | ScheduleFrame "int list"

record market_calendar =
  schedule :: "int \<Rightarrow> int \<Rightarrow> schedule_result"

record gate_env =
  strptime :: "string \<Rightarrow> int option"
  get_calendar :: "market_calendar option"

record trade_week_result =
  is_trade_week_flag :: bool
  monday_trading_day :: bool
  friday_trading_day :: bool
  tw_reason :: string

definition is_trade_week :: "py_format \<Rightarrow> gate_env \<Rightarrow> string \<Rightarrow> py_error + trade_week_result" where
  "is_trade_week F env monday_date =
     (let result = \<lparr>is_trade_week_flag = False, monday_trading_day = False,
                     friday_trading_day = False, tw_reason = []\<rparr>
      in
      case strptime env monday_date of
        None \<Rightarrow> Inr (result\<lparr>tw_reason := ''Invalid date format: '' @ monday_date
                      @ ''. Expected YYYY-MM-DD.''\<rparr>)
      | Some monday \<Rightarrow>
      if weekday monday \<noteq> 0 then
        Inr (result\<lparr>tw_reason := ''Date '' @ monday_date @ '' is not a Monday.''\<rparr>)
      else
      (case date_add_days monday 4 of
        Inl e \<Rightarrow> Inl e
      | Inr friday \<Rightarrow>
      (case get_calendar env of
        None \<Rightarrow> Inr (result\<lparr>tw_reason :=
                  ''Failed to load NYSE calendar. Defaulting to NO TRADE.''\<rparr>)
      | Some nyse \<Rightarrow>
      (case schedule nyse monday friday of
        ScheduleRaises \<Rightarrow> Inr (result\<lparr>tw_reason :=
                  ''Failed to retrieve market schedule. Defaulting to NO TRADE.''\<rparr>)
      | ScheduleNone \<Rightarrow> Inr (result\<lparr>tw_reason :=
                  ''No trading days found in the specified week.''\<rparr>)
      | ScheduleFrame dates \<Rightarrow>
      if dates = [] then
        Inr (result\<lparr>tw_reason := ''No trading days found in the specified week.''\<rparr>)
      else
      let trading_dates = set dates;
          monday_is_trading_day = (monday \<in> trading_dates);
          friday_is_trading_day = (friday \<in> trading_dates);
          result = result\<lparr>monday_trading_day := monday_is_trading_day,
                           friday_trading_day := friday_is_trading_day\<rparr>
      in
      if \<not> monday_is_trading_day \<and> \<not> friday_is_trading_day then
        Inr (result\<lparr>tw_reason := ''HARD BLOCK: Both Monday ('' @ monday_date
               @ '') and Friday ('' @ str_date F friday @ '') are market holidays.''\<rparr>)
      else if \<not> monday_is_trading_day then
        Inr (result\<lparr>tw_reason := ''HARD BLOCK: Monday ('' @ monday_date
               @ '') is a market holiday.''\<rparr>)
      else if \<not> friday_is_trading_day then
        Inr (result\<lparr>tw_reason := ''HARD BLOCK: Friday ('' @ str_date F friday
               @ '') is a market holiday.''\<rparr>)
      else
        Inr (result\<lparr>is_trade_week_flag := True,
               tw_reason := ''Trade week allowed: Monday ('' @ monday_date
                 @ '') and Friday ('' @ str_date F friday
                 @ '') are both trading days.''\<rparr>)))))"

text \<open>
  \<^verbatim>\<open>strptime\<close> only returns dates that Python represents.
\<close>

definition strptime_in_range :: "gate_env \<Rightarrow> bool" where
  "strptime_in_range env =
     (\<forall>s d. strptime env s = Some d \<longrightarrow> MIN_ORDINAL \<le> d \<and> d \<le> MAX_ORDINAL)"

section \<open>Concrete inputs and auxiliary definitions\<close>

definition c1_weeks :: "weekly_record list" where
  "c1_weeks =
     [\<lparr>w_week = ''2024-01-08'', w_decision = ''TRADE ALLOWED'', w_net_premium = Some 3,
       w_max_loss = Some 10, w_outcome = ''WIN'', w_pnl = 3\<rparr>,
      \<lparr>w_week = ''2024-01-15'', w_decision = ''TRADE ALLOWED'', w_net_premium = Some 3,
       w_max_loss = Some 0, w_outcome = ''WIN'', w_pnl = 3\<rparr>]"

definition c9_weeks :: "weekly_record list" where
  "c9_weeks =
     [\<lparr>w_week = ''2024-01-08'', w_decision = ''TRADE ALLOWED'', w_net_premium = Some 3,
       w_max_loss = Some 10, w_outcome = ''WIN'', w_pnl = 3\<rparr>,
      \<lparr>w_week = ''2024-01-15'', w_decision = ''TRADE ALLOWED'', w_net_premium = Some 2,
       w_max_loss = Some 10, w_outcome = ''OPEN'', w_pnl = -5\<rparr>]"

definition plain_format :: py_format where
  "plain_format = \<lparr>str_int = (\<lambda>_. ''0''), str_num = (\<lambda>_. ''0''), fmt_2f = (\<lambda>_. ''0.00''),
     fmt_4f = (\<lambda>_. ''0.0000''), str_bool = (\<lambda>b. if b then ''True'' else ''False''),
     str_date = (\<lambda>_. ''0001-01-01''), str_val = (\<lambda>_. ''value'')\<rparr>"

definition c4_holiday_ok :: pyval where
  "c4_holiday_ok = PyDict [(''is_trade_week'', PyBool True), (''reason'', PyStr ''Trade week allowed.'')]"

definition c4_holiday_blocked :: pyval where
  "c4_holiday_blocked =
     PyDict [(''is_trade_week'', PyBool False), (''reason'', PyStr ''Monday is a market holiday.'')]"

definition c4_ema_ok :: pyval where
  "c4_ema_ok = PyDict [(''valid'', PyBool True), (''short_above_long'', PyBool True),
     (''long_ema_slope'', PyStr ''positive''), (''reason'', PyStr ''EMA computed.'')]"

definition c4_context_ok :: pyval where
  "c4_context_ok = PyDict [(''entry_day'', PyStr ''Monday''), (''entry_time_valid'', PyBool True)]"

definition c3_prices :: "real list" where
  "c3_prices = [1, 2, 3, 4, 5]"



definition put_rec :: "real \<Rightarrow> real \<Rightarrow> real \<Rightarrow> real \<Rightarrow> option_rec" where
  "put_rec k d b a =
     \<lparr>opt_type = Some ''put'', opt_strike = Some k, opt_delta = Some d, opt_bid = Some b,
      opt_ask = Some a\<rparr>"

text \<open>The sample put chain of the worked scenario.\<close>

definition c6_chain :: "option_rec list" where
  "c6_chain =
     [put_rec 5800 (- 70 / 100) 45 46,
      put_rec 5825 (- 65 / 100) 38 39,
      put_rec 5850 (- 60 / 100) 32 33,
      put_rec 5875 (- 55 / 100) 26 27,
      put_rec 5900 (- 50 / 100) 21 22,
      put_rec 5925 (- 45 / 100) 17 18,
      put_rec 5950 (- 40 / 100) 13 14]"

text \<open>
  What a builder can return from the initial result: an invalid result that differs from
  it in the reason only, or a valid one whose maximum loss is present and not negative.
\<close>

definition initial_result :: "string \<Rightarrow> bwb_structure" where
  "initial_result t =
     \<lparr>structure_type = t, legs = [], net_premium = 0, max_loss = None, valid = False,
      reason = []\<rparr>"

definition well_formed_result :: "bwb_structure \<Rightarrow> bool" where
  "well_formed_result r =
     (if valid r then (case max_loss r of None \<Rightarrow> False | Some m \<Rightarrow> 0 \<le> m) \<and> length (legs r) = 3
      else legs r = [] \<and> net_premium r = 0 \<and> max_loss r = None \<and> reason r \<noteq> [])"

text \<open>A put chain whose short put is priced far above both long puts.\<close>

definition c8_chain :: "option_rec list" where
  "c8_chain =
     [put_rec 1 (- 70 / 100) 0 0,
      put_rec 2 (- 60 / 100) 0 0,
      put_rec 3 (- 55 / 100) 10 10,
      put_rec 4 (- 50 / 100) 0 0]"

text \<open>The distance \<^verbatim>\<open>abs(abs(delta) - target_delta)\<close> that the search minimises.\<close>

definition delta_gap :: "real \<Rightarrow> real \<Rightarrow> real" where
  "delta_gap target_delta d = \<bar>\<bar>d\<bar> - target_delta\<bar>"

text \<open>
  Position \<open>i\<close> of \<open>xs\<close> holds a record with a delta whose distance to the target is
  minimal in \<open>xs\<close> and strictly smaller than that of every earlier record.
\<close>

definition first_closest :: "real \<Rightarrow> option_rec list \<Rightarrow> nat \<Rightarrow> bool" where
  "first_closest target_delta xs i =
     (i < length xs \<and>
      (case opt_delta (xs ! i) of
         None \<Rightarrow> False
       | Some d \<Rightarrow>
           (\<forall>j < length xs. case opt_delta (xs ! j) of
                               None \<Rightarrow> True
                             | Some d' \<Rightarrow> delta_gap target_delta d \<le> delta_gap target_delta d'
                                         \<and> (j < i \<longrightarrow> delta_gap target_delta d
                                                        < delta_gap target_delta d'))))"


text \<open>
  A calendar environment: two date strings parse (2024-01-08, a Monday, is day 738893 and
  2024-01-09 is day 738894), and the schedule of every range holds the five days from
  2024-01-08 to 2024-01-12.
\<close>

definition c7_env :: gate_env where
  "c7_env =
     \<lparr>strptime = (\<lambda>s. if s = ''2024-01-08'' then Some 738893
                       else if s = ''2024-01-09'' then Some 738894 else None),
      get_calendar = Some \<lparr>schedule = (\<lambda>a b.
        ScheduleFrame [738893, 738894, 738895, 738896, 738897])\<rparr>\<rparr>"

section \<open>Properties of rounding\<close>

lemma py_round_zero: "py_round 0 n = 0"
  by (simp add: py_round_def)

lemma py_round_nonneg: "0 \<le> x \<Longrightarrow> 0 \<le> py_round x n"
  by (simp add: py_round_def Let_def)

lemma py_round_exact: "py_round (of_int k / 10 ^ n) n = of_int k / 10 ^ n"
  by (simp add: py_round_def Let_def)

section \<open>Properties of the backtest evaluator\<close>

lemma length_filter_disjoint:
  "(\<And>x. \<not> (P x \<and> Q x)) \<Longrightarrow>
   length (filter P xs) + length (filter Q xs) = length (filter (\<lambda>x. P x \<or> Q x) xs)"
  by (induction xs) auto

lemma c1_traded: "filter_traded_weeks c1_weeks = c1_weeks"
  by (simp add: filter_traded_weeks_def c1_weeks_def DECISION_TRADE_ALLOWED_def OUTCOME_SKIPPED_def)

text \<open>
  C1, as stated, fails: the code averages every known \<^verbatim>\<open>max_loss\<close> of the traded weeks,
  not only the positive ones. Two traded weeks with P&L 3 and maximum losses 10 and 0 (the
  floor the structure builder reports) give an average of 5 and a return on risk of 0.6,
  where the average over the positive values is 10 and the quotient 0.3.
\<close>

theorem return_on_risk_positive_counterexample:
  "filter_traded_weeks c1_weeks \<noteq> []
   \<and> return_on_risk (evaluate_backtest c1_weeks) = 6 / 10
   \<and> spec_return_on_risk c1_weeks = 3 / 10"
proof -
  have r: "py_round (3 / 5) 4 = 3 / 5"
    using py_round_exact [of 6000 4] by simp
  have a: "return_on_risk (evaluate_backtest c1_weeks) = 6 / 10"
    unfolding evaluate_backtest_def c1_traded
    by (simp add: c1_weeks_def Let_def r)
  have b: "spec_return_on_risk c1_weeks = 3 / 10"
    unfolding spec_return_on_risk_def spec_positive_max_losses_def c1_traded
    by (simp add: c1_weeks_def Let_def)
  show ?thesis using a b by (simp add: c1_traded) (simp add: c1_weeks_def)
qed

text \<open>
  C1, amended: when at least one week is traded, \<^verbatim>\<open>return_on_risk\<close> is the expectancy
  (the mean P&L of the traded weeks) divided by the mean of all known maximum losses of
  the traded weeks, rounded to 4 decimals, when that mean is positive, and 0 otherwise
  (no known maximum loss, or a mean that is not positive).
\<close>

theorem return_on_risk_known_max_losses:
  assumes "filter_traded_weeks ws \<noteq> []"
  shows "return_on_risk (evaluate_backtest ws) =
           (let ml = known_max_losses ws;
                avg = (if ml = [] then 0 else sum_list ml / real (length ml));
                pnls = traded_pnls ws
            in if avg > 0 then py_round ((sum_list pnls / real (length pnls)) / avg) 4 else 0)"
proof -
  have "ws \<noteq> []" using assms by (auto simp: filter_traded_weeks_def)
  then show ?thesis using assms
    by (simp add: evaluate_backtest_def Let_def known_max_losses_def traded_pnls_def
        py_round_zero)
qed

theorem return_on_risk_known_max_losses_witness:
  "filter_traded_weeks c1_weeks \<noteq> [] \<and> return_on_risk (evaluate_backtest c1_weeks) = py_round (3 / 5) 4"
proof -
  have t: "filter_traded_weeks c1_weeks \<noteq> []"
    by (simp add: c1_traded) (simp add: c1_weeks_def)
  show ?thesis
    using t return_on_risk_known_max_losses [OF t]
    by (simp add: known_max_losses_def traded_pnls_def c1_traded) (simp add: c1_weeks_def)
qed

text \<open>
  C9: a record whose decision is TRADE ALLOWED and whose outcome is none of WIN, LOSS and
  SKIPPED is one of the traded weeks, over which \<^verbatim>\<open>total_trades\<close>, \<^verbatim>\<open>expectancy\<close>,
  \<^verbatim>\<open>cumulative_pnl\<close> and \<^verbatim>\<open>max_drawdown\<close> are computed; it is counted in neither
  \<^verbatim>\<open>wins\<close> nor \<^verbatim>\<open>losses\<close>, so their sum is strictly below \<^verbatim>\<open>total_trades\<close>.
\<close>

theorem unclassified_outcome_counts_as_trade:
  assumes "r \<in> set ws"
    and "w_decision r = DECISION_TRADE_ALLOWED"
    and "w_outcome r \<noteq> OUTCOME_WIN" and "w_outcome r \<noteq> OUTCOME_LOSS"
    and "w_outcome r \<noteq> OUTCOME_SKIPPED"
  shows "r \<in> set (filter_traded_weeks ws)
    \<and> total_trades (evaluate_backtest ws) = length (filter_traded_weeks ws)
    \<and> expectancy (evaluate_backtest ws)
        = py_round (sum_list (traded_pnls ws) / real (length (traded_pnls ws))) 4
    \<and> cumulative_pnl (evaluate_backtest ws) = py_round (sum_list (traded_pnls ws)) 4
    \<and> max_drawdown (evaluate_backtest ws) = py_round (compute_max_drawdown (traded_pnls ws)) 4
    \<and> wins (evaluate_backtest ws)
        = length (filter (\<lambda>w. w_outcome w = OUTCOME_WIN) (filter_traded_weeks ws))
    \<and> losses (evaluate_backtest ws)
        = length (filter (\<lambda>w. w_outcome w = OUTCOME_LOSS) (filter_traded_weeks ws))
    \<and> wins (evaluate_backtest ws) + losses (evaluate_backtest ws)
        < total_trades (evaluate_backtest ws)"
proof -
  let ?T = "filter_traded_weeks ws"
  have mem: "r \<in> set ?T" using assms by (simp add: filter_traded_weeks_def)
  then have ne: "?T \<noteq> []" by auto
  have wne: "ws \<noteq> []" using assms(1) by auto
  have lt: "length (filter (\<lambda>w. w_outcome w = OUTCOME_WIN) ?T)
          + length (filter (\<lambda>w. w_outcome w = OUTCOME_LOSS) ?T) < length ?T"
  proof -
    have "length (filter (\<lambda>w. w_outcome w = OUTCOME_WIN) ?T)
          + length (filter (\<lambda>w. w_outcome w = OUTCOME_LOSS) ?T)
        = length (filter (\<lambda>w. w_outcome w = OUTCOME_WIN \<or> w_outcome w = OUTCOME_LOSS) ?T)"
      by (rule length_filter_disjoint) (simp add: OUTCOME_WIN_def OUTCOME_LOSS_def)
    also have "\<dots> < length ?T"
      using mem assms(3,4) by (intro length_filter_less[of r]) auto
    finally show ?thesis .
  qed
  show ?thesis using mem ne wne lt
    by (simp add: evaluate_backtest_def Let_def traded_pnls_def)
qed

theorem unclassified_outcome_counts_as_trade_witness:
  "c9_weeks ! 1 \<in> set c9_weeks
   \<and> w_decision (c9_weeks ! 1) = DECISION_TRADE_ALLOWED
   \<and> w_outcome (c9_weeks ! 1) = ''OPEN''
   \<and> total_trades (evaluate_backtest c9_weeks) = 2
   \<and> wins (evaluate_backtest c9_weeks) = 1
   \<and> losses (evaluate_backtest c9_weeks) = 0
   \<and> cumulative_pnl (evaluate_backtest c9_weeks) = py_round (- 2) 4"
proof -
  have t: "filter_traded_weeks c9_weeks = c9_weeks"
    by (simp add: filter_traded_weeks_def c9_weeks_def DECISION_TRADE_ALLOWED_def
        OUTCOME_SKIPPED_def)
  have h: "c9_weeks ! 1 \<in> set c9_weeks"
    "w_decision (c9_weeks ! 1) = DECISION_TRADE_ALLOWED"
    "w_outcome (c9_weeks ! 1) \<noteq> OUTCOME_WIN" "w_outcome (c9_weeks ! 1) \<noteq> OUTCOME_LOSS"
    "w_outcome (c9_weeks ! 1) \<noteq> OUTCOME_SKIPPED"
    by (simp_all add: c9_weeks_def DECISION_TRADE_ALLOWED_def OUTCOME_WIN_def OUTCOME_LOSS_def
        OUTCOME_SKIPPED_def)
  show ?thesis
    using h unclassified_outcome_counts_as_trade [OF h]
    by (simp add: t traded_pnls_def) (simp add: c9_weeks_def OUTCOME_WIN_def OUTCOME_LOSS_def)
qed

section \<open>Properties of the entry evaluator\<close>

lemma signal_conditions_dict:
  "\<exists>failed rs. evaluate_signal_conditions (PyDict d) = Inr (failed, rs)"
  by (simp add: evaluate_signal_conditions_def Let_def split: prod.splits)

lemma ema_check_clean_dict: "fst (ema_check F e) = [] \<Longrightarrow> \<exists>d. e = PyDict d"
  by (cases e) (simp_all add: ema_check_def)

lemma hard_blocks_clean_dict:
  "fst (evaluate_hard_blocks F h e c) = [] \<Longrightarrow> \<exists>d. e = PyDict d"
  by (auto simp: evaluate_hard_blocks_def Let_def split: prod.splits
      intro: ema_check_clean_dict [of F e])

lemma evaluate_entry_blocked:
  assumes "fst (evaluate_hard_blocks F h e c) \<noteq> []"
  shows "evaluate_entry F h e c =
           \<lparr>decision = DECISION_NO_TRADE,
            hard_blocks_triggered = fst (evaluate_hard_blocks F h e c),
            signal_failures = [],
            reasons = snd (evaluate_hard_blocks F h e c)\<rparr>"
proof -
  obtain t r where tr: "evaluate_hard_blocks F h e c = (t, r)"
    by (cases "evaluate_hard_blocks F h e c")
  show ?thesis using assms by (simp add: evaluate_entry_def tr)
qed

lemma evaluate_entry_clean:
  assumes "fst (evaluate_hard_blocks F h e c) = []"
  shows "hard_blocks_triggered (evaluate_entry F h e c) = []
       \<and> (decision (evaluate_entry F h e c) = DECISION_TRADE_ALLOWED
            \<longrightarrow> signal_failures (evaluate_entry F h e c) = [])"
proof -
  obtain d where d: "e = PyDict d" using hard_blocks_clean_dict [OF assms] by blast
  obtain failed rs where s: "evaluate_signal_conditions e = Inr (failed, rs)"
    using signal_conditions_dict [of d] d by blast
  obtain t r where tr: "evaluate_hard_blocks F h e c = (t, r)"
    by (cases "evaluate_hard_blocks F h e c")
  show ?thesis using assms s
    by (simp add: evaluate_entry_def tr Let_def DECISION_NO_TRADE_def
        DECISION_TRADE_ALLOWED_def)
qed

text \<open>
  C4: whatever the three inputs are, the decision is TRADE ALLOWED only if no hard block was
  triggered and no signal condition failed; and when a hard block was triggered, the signal
  conditions are not evaluated: the failure list is empty and the decision is NO TRADE.
\<close>

theorem trade_allowed_only_when_clean:
  "(decision (evaluate_entry F h e c) = DECISION_TRADE_ALLOWED \<longrightarrow>
      hard_blocks_triggered (evaluate_entry F h e c) = []
      \<and> signal_failures (evaluate_entry F h e c) = [])
   \<and> (hard_blocks_triggered (evaluate_entry F h e c) \<noteq> [] \<longrightarrow>
      signal_failures (evaluate_entry F h e c) = []
      \<and> decision (evaluate_entry F h e c) = DECISION_NO_TRADE)"
proof (cases "fst (evaluate_hard_blocks F h e c) = []")
  case True
  then show ?thesis using evaluate_entry_clean [OF True] by simp
next
  case False
  then show ?thesis using evaluate_entry_blocked [OF False]
    by (simp add: DECISION_NO_TRADE_def DECISION_TRADE_ALLOWED_def)
qed

theorem trade_allowed_only_when_clean_witness:
  "decision (evaluate_entry plain_format c4_holiday_ok c4_ema_ok c4_context_ok)
     = DECISION_TRADE_ALLOWED
   \<and> hard_blocks_triggered (evaluate_entry plain_format c4_holiday_ok c4_ema_ok c4_context_ok) = []
   \<and> signal_failures (evaluate_entry plain_format c4_holiday_ok c4_ema_ok c4_context_ok) = []
   \<and> hard_blocks_triggered (evaluate_entry plain_format c4_holiday_blocked c4_ema_ok c4_context_ok)
     = [''holiday_block'']
   \<and> signal_failures (evaluate_entry plain_format c4_holiday_blocked c4_ema_ok c4_context_ok) = []
   \<and> decision (evaluate_entry plain_format c4_holiday_blocked c4_ema_ok c4_context_ok)
     = DECISION_NO_TRADE"
proof -
  have a: "decision (evaluate_entry plain_format c4_holiday_ok c4_ema_ok c4_context_ok)
     = DECISION_TRADE_ALLOWED"
    by (simp add: evaluate_entry_def evaluate_hard_blocks_def holiday_check_def
        entry_context_check_def ema_check_def evaluate_signal_conditions_def dict_get_def
        c4_holiday_ok_def c4_ema_ok_def c4_context_ok_def Let_def)
  have b: "hard_blocks_triggered
             (evaluate_entry plain_format c4_holiday_blocked c4_ema_ok c4_context_ok)
           = [''holiday_block'']"
    by (simp add: evaluate_entry_def evaluate_hard_blocks_def holiday_check_def
        entry_context_check_def ema_check_def evaluate_signal_conditions_def dict_get_def
        c4_holiday_blocked_def c4_ema_ok_def c4_context_ok_def Let_def)
  show ?thesis
    using a b
      trade_allowed_only_when_clean [of plain_format c4_holiday_ok c4_ema_ok c4_context_ok]
      trade_allowed_only_when_clean [of plain_format c4_holiday_blocked c4_ema_ok c4_context_ok]
    by simp
qed

section \<open>Properties of the EMA engine\<close>

lemma length_ema_loop: "length (ema_loop m prev ps) = length ps"
  by (induction ps arbitrary: prev) (simp_all add: Let_def)

lemma ema_loop_nth_0: "ps \<noteq> [] \<Longrightarrow> ema_loop m prev ps ! 0 = (ps ! 0 - prev) * m + prev"
  by (cases ps) (simp_all add: Let_def)

lemma ema_loop_nth_Suc:
  "Suc i < length ps \<Longrightarrow>
   ema_loop m prev ps ! Suc i = (ps ! Suc i - ema_loop m prev ps ! i) * m + ema_loop m prev ps ! i"
proof (induction ps arbitrary: prev i)
  case Nil
  then show ?case by simp
next
  case (Cons p ps)
  show ?case
  proof (cases i)
    case 0
    then show ?thesis using Cons.prems by (simp add: Let_def ema_loop_nth_0)
  next
    case (Suc j)
    then show ?thesis using Cons.prems Cons.IH [of j] by (simp add: Let_def)
  qed
qed

text \<open>
  C3: with \<open>period \<ge> 1\<close> and at least \<open>period + 2\<close> prices, the series has one value per
  price, its first \<open>period\<close> values are the mean of the first \<open>period\<close> prices, and every
  later value follows the recurrence from its predecessor; with fewer prices there is no
  result.
\<close>

theorem compute_ema_series_seed_and_recurrence:
  "(1 \<le> period \<and> period + 2 \<le> int (length prices) \<longrightarrow>
      (\<exists>series. compute_ema_series prices period = Some series
         \<and> length series = length prices
         \<and> (\<forall>i < nat period.
               series ! i = sum_list (take (nat period) prices) / real_of_int period)
         \<and> (\<forall>i. nat period \<le> i \<and> i < length prices \<longrightarrow>
               series ! i = (prices ! i - series ! (i - 1)) * (2 / (real_of_int period + 1))
                            + series ! (i - 1))))
   \<and> (int (length prices) < period + 2 \<longrightarrow> compute_ema_series prices period = None)"
proof (intro conjI impI)
  assume "int (length prices) < period + 2"
  then show "compute_ema_series prices period = None"
    by (simp add: compute_ema_series_def)
next
  assume h: "1 \<le> period \<and> period + 2 \<le> int (length prices)"
  define n where "n = nat period"
  define m where "m = 2 / (real_of_int period + 1)"
  define seed where "seed = sum_list (take n prices) / real_of_int period"
  define tl where "tl = ema_loop m seed (drop n prices)"
  define series where "series = replicate n seed @ tl"
  have n: "1 \<le> n" "n + 2 \<le> length prices" using h unfolding n_def by linarith+
  have s: "compute_ema_series prices period = Some series"
    using h by (simp add: compute_ema_series_def Let_def series_def tl_def seed_def m_def n_def)
  have ltl: "length tl = length prices - n" by (simp add: tl_def length_ema_loop)
  have len: "length series = length prices" using n by (simp add: series_def ltl)
  have seedp: "\<forall>i < n. series ! i = seed" by (simp add: series_def nth_append)
  have rec: "series ! i = (prices ! i - series ! (i - 1)) * m + series ! (i - 1)"
    if i: "n \<le> i" "i < length prices" for i
  proof (cases "i = n")
    case True
    have "series ! n = tl ! 0" by (simp add: series_def nth_append)
    also have "\<dots> = (drop n prices ! 0 - seed) * m + seed"
      unfolding tl_def using n by (intro ema_loop_nth_0) simp
    also have "drop n prices ! 0 = prices ! n" using n by simp
    finally show ?thesis using True n seedp by simp
  next
    case False
    then obtain j where j: "i = n + Suc j" using i(1) by (metis Suc_diff_Suc le_add_diff_inverse le_neq_implies_less)
    have a: "series ! i = tl ! Suc j" by (simp add: series_def nth_append j)
    have b: "series ! (i - 1) = tl ! j" by (simp add: series_def nth_append j)
    have "tl ! Suc j = (drop n prices ! Suc j - tl ! j) * m + tl ! j"
      unfolding tl_def using i(2) j by (intro ema_loop_nth_Suc) simp
    moreover have "drop n prices ! Suc j = prices ! i" using i j by simp
    ultimately show ?thesis using a b by simp
  qed
  show "\<exists>series. compute_ema_series prices period = Some series
         \<and> length series = length prices
         \<and> (\<forall>i < nat period.
               series ! i = sum_list (take (nat period) prices) / real_of_int period)
         \<and> (\<forall>i. nat period \<le> i \<and> i < length prices \<longrightarrow>
               series ! i = (prices ! i - series ! (i - 1)) * (2 / (real_of_int period + 1))
                            + series ! (i - 1))"
    using s len seedp rec unfolding n_def [symmetric] m_def [symmetric] seed_def [symmetric]
    by blast
qed

theorem compute_ema_series_seed_and_recurrence_witness:
  "(1::int) \<le> 2 \<and> (2::int) + 2 \<le> int (length c3_prices)
   \<and> compute_ema_series c3_prices 2 = Some [3 / 2, 3 / 2, 5 / 2, 7 / 2, 9 / 2]
   \<and> int (length [1::real, 2, 3]) < 2 + 2
   \<and> compute_ema_series [1, 2, 3] 2 = None"
proof -
  have a: "compute_ema_series c3_prices 2 = Some [3 / 2, 3 / 2, 5 / 2, 7 / 2, 9 / 2]"
    by (simp add: compute_ema_series_def c3_prices_def Let_def numeral_2_eq_2)
  show ?thesis
    using a compute_ema_series_seed_and_recurrence [of 2 c3_prices]
      compute_ema_series_seed_and_recurrence [of 2 "[1, 2, 3]"]
    by (simp add: c3_prices_def)
qed












section \<open>Properties of the BWB builder\<close>

lemma strike_of_put_rec: "strike_of (put_rec k d b a) = k"
  by (simp add: put_rec_def strike_of_def)

lemma mid_price_put_rec: "mid_price (put_rec k d b a) = (b + a) / 2"
  by (simp add: mid_price_def put_rec_def)

lemma opt_delta_put_rec: "opt_delta (put_rec k d b a) = Some d"
  by (simp add: put_rec_def)

lemma c6_puts: "filter_options c6_chain ''put'' = c6_chain"
  by (simp add: filter_options_def c6_chain_def put_rec_def)

lemma c6_sorted: "sorted_by_strike c6_chain = Inr c6_chain"
  by (simp add: sorted_by_strike_def c6_chain_def put_rec_def strike_of_def)

lemma c6_closest:
  "find_closest_delta c6_chain TARGET_DELTA_PUT_SHORT = Some (put_rec 5875 (- 55 / 100) 26 27)"
  by (simp add: find_closest_delta_def c6_chain_def put_rec_def TARGET_DELTA_PUT_SHORT_def)

lemma c6_strikes: "map strike_of c6_chain = [5800, 5825, 5850, 5875, 5900, 5925, 5950]"
  by (simp add: c6_chain_def put_rec_def strike_of_def)

lemma c6_upper:
  "find_option_by_strike c6_chain 5900 = Some (put_rec 5900 (- 50 / 100) 21 22)"
  by (simp add: find_option_by_strike_def c6_chain_def put_rec_def)

lemma c6_lower:
  "find_option_by_strike c6_chain 5825 = Some (put_rec 5825 (- 65 / 100) 38 39)"
  by (simp add: find_option_by_strike_def c6_chain_def put_rec_def)


lemma c6_index: "list_index [5800, 5825, 5850, 5875, 5900, 5925, 5950 :: real] 5875 = Some 3"
  by simp

lemma c6_build:
  "build_put_credit_bwb F c6_chain
     \<lparr>structure_type = t, legs = [], net_premium = 0, max_loss = None, valid = False,
      reason = []\<rparr>
   = Inr \<lparr>structure_type = t,
          legs = [make_leg ''SELL'' 2 ''put'' 5875 (53 / 2) (Some (- 55 / 100)),
                  make_leg ''BUY'' 1 ''put'' 5900 (43 / 2) (Some (- 50 / 100)),
                  make_leg ''BUY'' 1 ''put'' 5825 (77 / 2) (Some (- 65 / 100))],
          net_premium = py_round (- 7) 4,
          max_loss = Some (py_round 32 4),
          valid = True,
          reason = ''PUT credit BWB built: short '' @ str_num F 5875
               @ '' (x2), long '' @ str_num F 5900
               @ '', wing '' @ str_num F 5825
               @ ''. Net credit: '' @ fmt_2f F (- 7)
               @ '', Max loss: '' @ fmt_2f F (py_round 32 4)\<rparr>"
proof -
  have ne: "c6_chain \<noteq> []" by (simp add: c6_chain_def)
  show ?thesis
    unfolding build_put_credit_bwb_def c6_puts
    by (simp add: ne c6_sorted c6_closest c6_strikes strike_of_put_rec c6_index c6_upper
        c6_lower mid_price_put_rec opt_delta_put_rec Let_def del: list_index.simps)
qed

text \<open>
  C6: on the sample put chain the PUT credit builder returns a valid structure that sells
  two puts at 5875 and buys one at 5900 and one at 5825, with net premium -7.0 and maximum
  loss 32.0.
\<close>

theorem put_credit_worked_scenario:
  "valid (build_bwb_structure F c6_chain STRUCTURE_PUT_CREDIT_BWB)
   \<and> map action (legs (build_bwb_structure F c6_chain STRUCTURE_PUT_CREDIT_BWB))
       = [''SELL'', ''BUY'', ''BUY'']
   \<and> map quantity (legs (build_bwb_structure F c6_chain STRUCTURE_PUT_CREDIT_BWB)) = [2, 1, 1]
   \<and> map leg_strike (legs (build_bwb_structure F c6_chain STRUCTURE_PUT_CREDIT_BWB))
       = [5875, 5900, 5825]
   \<and> net_premium (build_bwb_structure F c6_chain STRUCTURE_PUT_CREDIT_BWB) = - 7
   \<and> max_loss (build_bwb_structure F c6_chain STRUCTURE_PUT_CREDIT_BWB) = Some 32"
proof -
  have ne: "c6_chain \<noteq> []" by (simp add: c6_chain_def)
  have r1: "py_round (- 7) 4 = - 7" using py_round_exact [of "- 70000" 4] by simp
  have r2: "py_round 32 4 = 32" using py_round_exact [of 320000 4] by simp
  show ?thesis
    unfolding build_bwb_structure_def Let_def
    by (simp add: ne c6_build r1 r2 make_leg_def)
qed


lemma build_put_credit_well_formed:
  "build_put_credit_bwb F chain (initial_result t) = Inr r \<Longrightarrow> well_formed_result r"
  unfolding build_put_credit_bwb_def initial_result_def well_formed_result_def Let_def
  by (auto split: sum.splits option.splits if_splits simp: py_round_nonneg)

lemma build_call_debit_well_formed:
  "build_call_debit_bwb F chain (initial_result t) = Inr r \<Longrightarrow> well_formed_result r"
  unfolding build_call_debit_bwb_def initial_result_def well_formed_result_def Let_def
  by (auto split: sum.splits option.splits if_splits simp: py_round_nonneg)

lemma build_bwb_structure_well_formed:
  "well_formed_result (build_bwb_structure F chain t)"
proof -
  have init: "\<And>msg. msg \<noteq> [] \<Longrightarrow> well_formed_result ((initial_result t)\<lparr>reason := msg\<rparr>)"
    by (simp add: well_formed_result_def initial_result_def)
  show ?thesis
  proof (cases "length chain = 0")
    case True
    then show ?thesis
      using init [of "''Invalid or empty option chain provided.''"]
      by (simp add: build_bwb_structure_def initial_result_def)
  next
    case False
    consider (put) "t = STRUCTURE_PUT_CREDIT_BWB"
      | (call) "t \<noteq> STRUCTURE_PUT_CREDIT_BWB" "t = STRUCTURE_CALL_DEBIT_BWB"
      | (other) "t \<noteq> STRUCTURE_PUT_CREDIT_BWB" "t \<noteq> STRUCTURE_CALL_DEBIT_BWB"
      by blast
    then show ?thesis
    proof cases
      case put
      show ?thesis
      proof (cases "build_put_credit_bwb F chain (initial_result t)")
        case (Inl e)
        then show ?thesis
          using False put init [of "''Unexpected error during structure construction.''"]
          by (simp add: build_bwb_structure_def initial_result_def)
      next
        case (Inr r)
        then show ?thesis
          using False put build_put_credit_well_formed [OF Inr]
          by (simp add: build_bwb_structure_def initial_result_def)
      qed
    next
      case call
      show ?thesis
      proof (cases "build_call_debit_bwb F chain (initial_result t)")
        case (Inl e)
        then show ?thesis
          using False call init [of "''Unexpected error during structure construction.''"]
          by (simp add: build_bwb_structure_def initial_result_def)
      next
        case (Inr r)
        then show ?thesis
          using False call build_call_debit_well_formed [OF Inr]
          by (simp add: build_bwb_structure_def initial_result_def)
      qed
    next
      case other
      then show ?thesis
        using False init [of "''Unknown structure type: '' @ t"]
        by (simp add: build_bwb_structure_def initial_result_def)
    qed
  qed
qed


text \<open>
  C8: for every option chain and structure type, a structure returned as valid has a
  maximum loss, and it is not negative.
\<close>

theorem valid_structure_max_loss_nonneg:
  "valid (build_bwb_structure F chain t) \<longrightarrow>
     (\<exists>m. max_loss (build_bwb_structure F chain t) = Some m \<and> 0 \<le> m)"
  using build_bwb_structure_well_formed [of F chain t]
  by (auto simp: well_formed_result_def split: option.splits if_splits)

lemma c8_build:
  "build_put_credit_bwb F c8_chain (initial_result t)
   = Inr ((initial_result t)\<lparr>
       legs := [make_leg ''SELL'' 2 ''put'' 3 10 (Some (- 55 / 100)),
                make_leg ''BUY'' 1 ''put'' 4 0 (Some (- 50 / 100)),
                make_leg ''BUY'' 1 ''put'' 1 0 (Some (- 70 / 100))],
       net_premium := py_round 20 4,
       max_loss := Some 0,
       valid := True,
       reason := ''PUT credit BWB built: short '' @ str_num F 3
               @ '' (x2), long '' @ str_num F 4
               @ '', wing '' @ str_num F 1
               @ ''. Net credit: '' @ fmt_2f F 20
               @ '', Max loss: '' @ fmt_2f F 0\<rparr>)"
proof -
  have ne: "c8_chain \<noteq> []" by (simp add: c8_chain_def)
  have puts: "filter_options c8_chain ''put'' = c8_chain"
    by (simp add: filter_options_def c8_chain_def put_rec_def)
  have srt: "sorted_by_strike c8_chain = Inr c8_chain"
    by (simp add: sorted_by_strike_def c8_chain_def put_rec_def strike_of_def)
  have cl: "find_closest_delta c8_chain TARGET_DELTA_PUT_SHORT
              = Some (put_rec 3 (- 55 / 100) 10 10)"
    by (simp add: find_closest_delta_def c8_chain_def put_rec_def TARGET_DELTA_PUT_SHORT_def)
  have st: "map strike_of c8_chain = [1, 2, 3, 4]"
    by (simp add: c8_chain_def put_rec_def strike_of_def)
  have ix: "list_index [1, 2, 3, 4 :: real] 3 = Some 2" by simp
  have up: "find_option_by_strike c8_chain 4 = Some (put_rec 4 (- 50 / 100) 0 0)"
    by (simp add: find_option_by_strike_def c8_chain_def put_rec_def)
  have lo: "find_option_by_strike c8_chain 1 = Some (put_rec 1 (- 70 / 100) 0 0)"
    by (simp add: find_option_by_strike_def c8_chain_def put_rec_def)
  show ?thesis
    unfolding build_put_credit_bwb_def puts
    by (simp add: ne srt cl st strike_of_put_rec ix up lo mid_price_put_rec opt_delta_put_rec
        Let_def initial_result_def del: list_index.simps)
qed

theorem valid_structure_max_loss_nonneg_witness:
  "valid (build_bwb_structure plain_format c8_chain STRUCTURE_PUT_CREDIT_BWB)
   \<and> (\<exists>m. max_loss (build_bwb_structure plain_format c8_chain STRUCTURE_PUT_CREDIT_BWB) = Some m
          \<and> 0 \<le> m)
   \<and> max_loss (build_bwb_structure plain_format c8_chain STRUCTURE_PUT_CREDIT_BWB) = Some 0"
proof -
  have ne: "c8_chain \<noteq> []" by (simp add: c8_chain_def)
  have b: "build_bwb_structure plain_format c8_chain STRUCTURE_PUT_CREDIT_BWB
           = (initial_result STRUCTURE_PUT_CREDIT_BWB)\<lparr>
       legs := [make_leg ''SELL'' 2 ''put'' 3 10 (Some (- 55 / 100)),
                make_leg ''BUY'' 1 ''put'' 4 0 (Some (- 50 / 100)),
                make_leg ''BUY'' 1 ''put'' 1 0 (Some (- 70 / 100))],
       net_premium := py_round 20 4,
       max_loss := Some 0,
       valid := True,
       reason := ''PUT credit BWB built: short '' @ str_num plain_format 3
               @ '' (x2), long '' @ str_num plain_format 4
               @ '', wing '' @ str_num plain_format 1
               @ ''. Net credit: '' @ fmt_2f plain_format 20
               @ '', Max loss: '' @ fmt_2f plain_format 0\<rparr>"
    using c8_build [of plain_format STRUCTURE_PUT_CREDIT_BWB]
    by (simp add: build_bwb_structure_def ne initial_result_def)
  have v: "valid (build_bwb_structure plain_format c8_chain STRUCTURE_PUT_CREDIT_BWB)"
    unfolding b by simp
  have e: "\<exists>m. max_loss (build_bwb_structure plain_format c8_chain STRUCTURE_PUT_CREDIT_BWB)
                 = Some m \<and> 0 \<le> m"
    using valid_structure_max_loss_nonneg [of plain_format c8_chain STRUCTURE_PUT_CREDIT_BWB] v
    by (rule mp)
  have z: "max_loss (build_bwb_structure plain_format c8_chain STRUCTURE_PUT_CREDIT_BWB) = Some 0"
    unfolding b by simp
  show ?thesis by (intro conjI) (rule v, rule e, rule z)
qed

text \<open>
  C10: for every option chain and structure type, a result returned as invalid has no legs,
  the net premium 0, no maximum loss and a reason that is not empty.
\<close>

theorem invalid_structure_defaults:
  "\<not> valid (build_bwb_structure F chain t) \<longrightarrow>
     legs (build_bwb_structure F chain t) = []
     \<and> net_premium (build_bwb_structure F chain t) = 0
     \<and> max_loss (build_bwb_structure F chain t) = None
     \<and> reason (build_bwb_structure F chain t) \<noteq> []"
  using build_bwb_structure_well_formed [of F chain t]
  by (simp add: well_formed_result_def split: if_splits)

theorem invalid_structure_defaults_witness:
  "\<not> valid (build_bwb_structure plain_format [] STRUCTURE_PUT_CREDIT_BWB)
   \<and> legs (build_bwb_structure plain_format [] STRUCTURE_PUT_CREDIT_BWB) = []
   \<and> net_premium (build_bwb_structure plain_format [] STRUCTURE_PUT_CREDIT_BWB) = 0
   \<and> max_loss (build_bwb_structure plain_format [] STRUCTURE_PUT_CREDIT_BWB) = None
   \<and> reason (build_bwb_structure plain_format [] STRUCTURE_PUT_CREDIT_BWB)
       = ''Invalid or empty option chain provided.''"
proof -
  have v: "\<not> valid (build_bwb_structure plain_format [] STRUCTURE_PUT_CREDIT_BWB)"
    by (simp add: build_bwb_structure_def)
  have r: "reason (build_bwb_structure plain_format [] STRUCTURE_PUT_CREDIT_BWB)
       = ''Invalid or empty option chain provided.''"
    by (simp add: build_bwb_structure_def)
  show ?thesis
    using v r invalid_structure_defaults [of plain_format "[]" STRUCTURE_PUT_CREDIT_BWB]
    by blast
qed

section \<open>Selection of the short strike\<close>

lemma first_closest_skip:
  "opt_delta x = None \<Longrightarrow> first_closest t xs i \<Longrightarrow> first_closest t (x # xs) (Suc i)"
  by (auto simp: first_closest_def less_Suc_eq_0_disj split: option.splits)

lemma first_closest_later:
  assumes "opt_delta x = Some dx" and "first_closest t xs i"
    and "delta_gap t (the (opt_delta (xs ! i))) < delta_gap t dx"
  shows "first_closest t (x # xs) (Suc i)"
  using assms
  by (auto simp: first_closest_def less_Suc_eq_0_disj split: option.splits)

lemma first_closest_head:
  assumes "opt_delta x = Some dx"
    and "\<forall>y \<in> set xs. \<forall>d'. opt_delta y = Some d' \<longrightarrow> delta_gap t dx \<le> delta_gap t d'"
  shows "first_closest t (x # xs) 0"
  using assms
  by (auto simp: first_closest_def less_Suc_eq_0_disj split: option.splits)

lemma closest_loop_spec:
  assumes "(c = None \<and> m = None) \<or> (\<exists>c0 m0. c = Some c0 \<and> m = Some m0)"
  shows "case closest_loop t c m xs of
           None \<Rightarrow> c = None \<and> (\<forall>x \<in> set xs. opt_delta x = None)
         | Some p \<Rightarrow>
             (c = Some p \<and> (\<forall>x \<in> set xs. \<forall>d'. opt_delta x = Some d' \<longrightarrow>
                               the m \<le> delta_gap t d'))
             \<or> (\<exists>i. first_closest t xs i \<and> xs ! i = p
                    \<and> (\<forall>m0. m = Some m0 \<longrightarrow> delta_gap t (the (opt_delta p)) < m0))"
  using assms
proof (induction xs arbitrary: c m)
  case Nil
  then show ?case by (auto split: option.splits)
next
  case (Cons x xs)
  show ?case
  proof (cases "opt_delta x")
    case None
    have eq: "closest_loop t c m (x # xs) = closest_loop t c m xs" using None by simp
    have lift: "first_closest t (x # xs) (Suc i)" if "first_closest t xs i" for i
      using that None
      by (auto simp: first_closest_def less_Suc_eq_0_disj split: option.splits)
    show ?thesis
      using Cons.IH [OF Cons.prems] None lift unfolding eq
      by (auto split: option.splits) (metis nth_Cons_Suc)+
  next
    case (Some dx)
    let ?g = "delta_gap t dx"
    show ?thesis
    proof (cases "case m of None \<Rightarrow> True | Some m0 \<Rightarrow> ?g < m0")
      case True
      have eq: "closest_loop t c m (x # xs) = closest_loop t (Some x) (Some ?g) xs"
        using Some True unfolding delta_gap_def by (simp add: Let_def)
      have st: "(Some x = None \<and> Some ?g = None) \<or> (\<exists>c0 m0. Some x = Some c0 \<and> Some ?g = Some m0)"
        by simp
      obtain p where p: "closest_loop t (Some x) (Some ?g) xs = Some p"
        using Cons.IH [OF st] by (cases "closest_loop t (Some x) (Some ?g) xs") auto
      from Cons.IH [OF st] p
      consider (head) "p = x"
          "\<forall>y \<in> set xs. \<forall>d'. opt_delta y = Some d' \<longrightarrow> ?g \<le> delta_gap t d'"
        | (later) i where "first_closest t xs i" "xs ! i = p"
          "delta_gap t (the (opt_delta p)) < ?g"
        by auto
      then show ?thesis
      proof cases
        case head
        have "first_closest t (x # xs) 0" using first_closest_head [OF Some head(2)] .
        moreover have "\<forall>m0. m = Some m0 \<longrightarrow> delta_gap t (the (opt_delta p)) < m0"
          using True head(1) Some by (auto split: option.splits)
        ultimately show ?thesis unfolding eq p using head(1) by (auto intro: exI [of _ 0])
      next
        case later
        have "first_closest t (x # xs) (Suc i)"
          using first_closest_later [OF Some later(1)] later(2,3) by simp
        moreover have "\<forall>m0. m = Some m0 \<longrightarrow> delta_gap t (the (opt_delta p)) < m0"
          using True later(3) by (auto split: option.splits)
        ultimately show ?thesis unfolding eq p using later(2)
          by (auto intro: exI [of _ "Suc i"])
      qed
    next
      case False
      then obtain m0 where m0: "m = Some m0" "m0 \<le> ?g" by (auto split: option.splits)
      then obtain c0 where c0: "c = Some c0" using Cons.prems by auto
      have eq: "closest_loop t c m (x # xs) = closest_loop t c m xs"
        using Some m0 unfolding delta_gap_def by (simp add: Let_def)
      obtain p where p: "closest_loop t c m xs = Some p"
        using Cons.IH [OF Cons.prems] c0 by (cases "closest_loop t c m xs") auto
      from Cons.IH [OF Cons.prems] p m0
      consider (old) "c = Some p"
          "\<forall>y \<in> set xs. \<forall>d'. opt_delta y = Some d' \<longrightarrow> m0 \<le> delta_gap t d'"
        | (later) i where "first_closest t xs i" "xs ! i = p"
          "delta_gap t (the (opt_delta p)) < m0"
        by auto
      then show ?thesis
      proof cases
        case old
        then show ?thesis unfolding eq p using m0 Some by auto
      next
        case later
        have "first_closest t (x # xs) (Suc i)"
          using first_closest_later [OF Some later(1)] later(2,3) m0(2) by simp
        then show ?thesis unfolding eq p using later(2,3) m0
          by (auto intro: exI [of _ "Suc i"])
      qed
    qed
  qed
qed



lemma find_closest_delta_None:
  assumes "find_closest_delta xs t = None"
  shows "\<forall>x \<in> set xs. opt_delta x = None"
proof (cases "xs = []")
  case True
  then show ?thesis by simp
next
  case False
  then have r: "closest_loop t None None xs = None"
    using assms by (simp add: find_closest_delta_def)
  show ?thesis using closest_loop_spec [where c = None and m = None and t = t and xs = xs] r by auto
qed






section \<open>Properties of the holiday gate\<close>

lemma monday_plus_four_in_range:
  assumes "weekday d = 0" and "MIN_ORDINAL \<le> d" and "d \<le> MAX_ORDINAL"
  shows "date_add_days d 4 = Inr (d + 4)"
proof -
  have "(d + 6) mod 7 = 0" using assms(1) by (simp add: weekday_def)
  then have "d + 4 \<le> 3652059" using assms(3) unfolding MAX_ORDINAL_def by presburger
  then show ?thesis using assms(2) by (simp add: date_add_days_def MIN_ORDINAL_def MAX_ORDINAL_def)
qed

text \<open>
  C7: with a \<^verbatim>\<open>strptime\<close> that returns representable dates, the gate returns a result for
  every input string and never raises. Its reason is never empty. The week is not allowed
  when the string does not parse, when the date is not a Monday, when the calendar cannot
  be loaded, when the schedule query raises, and when the schedule is missing or empty;
  otherwise it is allowed exactly when the Monday and the day four days later are both
  among the trading dates of the schedule.
\<close>

theorem holiday_gate_fail_closed:
  assumes "strptime_in_range env"
  shows "\<exists>r. is_trade_week F env s = Inr r
     \<and> tw_reason r \<noteq> []
     \<and> (strptime env s = None \<longrightarrow> \<not> is_trade_week_flag r)
     \<and> (\<forall>m. strptime env s = Some m \<and> weekday m \<noteq> 0 \<longrightarrow> \<not> is_trade_week_flag r)
     \<and> (get_calendar env = None \<longrightarrow> \<not> is_trade_week_flag r)
     \<and> (\<forall>m cal. strptime env s = Some m \<and> weekday m = 0 \<and> get_calendar env = Some cal \<longrightarrow>
          (schedule cal m (m + 4) = ScheduleRaises \<longrightarrow> \<not> is_trade_week_flag r)
          \<and> (schedule cal m (m + 4) = ScheduleNone \<longrightarrow> \<not> is_trade_week_flag r)
          \<and> (schedule cal m (m + 4) = ScheduleFrame [] \<longrightarrow> \<not> is_trade_week_flag r)
          \<and> (\<forall>dates. schedule cal m (m + 4) = ScheduleFrame dates \<and> dates \<noteq> [] \<longrightarrow>
                is_trade_week_flag r = (m \<in> set dates \<and> m + 4 \<in> set dates)
                \<and> monday_trading_day r = (m \<in> set dates)
                \<and> friday_trading_day r = (m + 4 \<in> set dates)))"
proof (cases "strptime env s")
  case None
  then show ?thesis by (simp add: is_trade_week_def)
next
  case (Some m)
  have rng: "MIN_ORDINAL \<le> m" "m \<le> MAX_ORDINAL"
    using assms Some by (auto simp: strptime_in_range_def)
  show ?thesis
  proof (cases "weekday m = 0")
    case False
    then show ?thesis using Some by (simp add: is_trade_week_def)
  next
    case True
    have fri: "date_add_days m 4 = Inr (m + 4)"
      by (rule monday_plus_four_in_range [OF True rng])
    show ?thesis
    proof (cases "get_calendar env")
      case None
      then show ?thesis using Some True fri by (simp add: is_trade_week_def)
    next
      case (Some cal)
      note cal = Some
      show ?thesis
      proof (cases "schedule cal m (m + 4)")
        case ScheduleRaises
        then show ?thesis using \<open>strptime env s = Some m\<close> True fri cal
          by (simp add: is_trade_week_def)
      next
        case ScheduleNone
        then show ?thesis using \<open>strptime env s = Some m\<close> True fri cal
          by (simp add: is_trade_week_def)
      next
        case (ScheduleFrame dates)
        then show ?thesis using \<open>strptime env s = Some m\<close> True fri cal
          by (simp add: is_trade_week_def Let_def)
      qed
    qed
  qed
qed


theorem holiday_gate_fail_closed_witness:
  "strptime_in_range c7_env
   \<and> map_sum id is_trade_week_flag (is_trade_week plain_format c7_env ''2024-01-08'') = Inr True
   \<and> map_sum id is_trade_week_flag (is_trade_week plain_format c7_env ''2024-01-09'') = Inr False
   \<and> map_sum id is_trade_week_flag (is_trade_week plain_format c7_env ''next week'') = Inr False"
proof -
  have rng: "strptime_in_range c7_env"
    by (auto simp: strptime_in_range_def c7_env_def MIN_ORDINAL_def MAX_ORDINAL_def
        split: if_splits)
  have p1: "strptime c7_env ''2024-01-08'' = Some 738893" by (simp add: c7_env_def)
  have p2: "strptime c7_env ''2024-01-09'' = Some 738894" by (simp add: c7_env_def)
  have p3: "strptime c7_env ''next week'' = None" by (simp add: c7_env_def)
  have w1: "weekday 738893 = 0" by (simp add: weekday_def)
  have w2: "weekday 738894 \<noteq> 0" by (simp add: weekday_def)
  define cal :: market_calendar
    where "cal = \<lparr>schedule = (\<lambda>a b. ScheduleFrame [738893, 738894, 738895, 738896, 738897])\<rparr>"
  have c: "get_calendar c7_env = Some cal" by (simp add: c7_env_def cal_def)
  have sch: "schedule cal 738893 (738893 + 4)
               = ScheduleFrame [738893, 738894, 738895, 738896, 738897]"
    by (simp add: cal_def)
  obtain r1 where r1: "is_trade_week plain_format c7_env ''2024-01-08'' = Inr r1"
    and f1: "\<forall>m cal. strptime c7_env ''2024-01-08'' = Some m \<and> weekday m = 0
                \<and> get_calendar c7_env = Some cal \<longrightarrow>
                (\<forall>dates. schedule cal m (m + 4) = ScheduleFrame dates \<and> dates \<noteq> [] \<longrightarrow>
                   is_trade_week_flag r1 = (m \<in> set dates \<and> m + 4 \<in> set dates))"
    using holiday_gate_fail_closed [OF rng, of plain_format "''2024-01-08''"] by blast
  have "is_trade_week_flag r1 =
          (738893 \<in> set [738893, 738894, 738895, 738896, 738897 :: int]
           \<and> 738893 + 4 \<in> set [738893, 738894, 738895, 738896, 738897 :: int])"
    using f1 p1 w1 c sch by blast
  then have a: "map_sum id is_trade_week_flag (is_trade_week plain_format c7_env ''2024-01-08'')
                  = Inr True"
    by (simp add: r1)
  obtain r2 where r2: "is_trade_week plain_format c7_env ''2024-01-09'' = Inr r2"
    and f2: "\<forall>m. strptime c7_env ''2024-01-09'' = Some m \<and> weekday m \<noteq> 0
               \<longrightarrow> \<not> is_trade_week_flag r2"
    using holiday_gate_fail_closed [OF rng, of plain_format "''2024-01-09''"] by blast
  have "\<not> is_trade_week_flag r2" using f2 p2 w2 by blast
  then have b: "map_sum id is_trade_week_flag (is_trade_week plain_format c7_env ''2024-01-09'')
                  = Inr False"
    by (simp add: r2)
  obtain r3 where r3: "is_trade_week plain_format c7_env ''next week'' = Inr r3"
    and f3: "strptime c7_env ''next week'' = None \<longrightarrow> \<not> is_trade_week_flag r3"
    using holiday_gate_fail_closed [OF rng, of plain_format "''next week''"]
    by (elim exE conjE) simp
  have "\<not> is_trade_week_flag r3" using f3 p3 by blast
  then have d: "map_sum id is_trade_week_flag (is_trade_week plain_format c7_env ''next week'')
                  = Inr False"
    by (simp add: r3)
  show ?thesis by (intro conjI) (rule rng, rule a, rule b, rule d)
qed

end
